theory Spec2Isabelle
  imports Main
begin

section \<open>The complexity-analyzer extension: data\<close>

text \<open>
  The extension (\<^verbatim>\<open>src/extension.ts\<close>) keeps two module variables, \<^verbatim>\<open>currentPanel\<close> and
  \<^verbatim>\<open>debounceTimeout\<close>, and reacts to three host notifications: the analyze command, a
  change of a text document and a change of the active editor. Every reaction ends in
  \<^verbatim>\<open>performAnalysis\<close>, an \<^verbatim>\<open>async\<close> function: its synchronous prefix runs up to the
  \<^verbatim>\<open>fetch\<close>, and its continuation runs when the call to the backend has settled.

  The host (editor window, timers, panels, notices, console, network) is part of the state,
  so that every effect of the code can be observed on it.
\<close>

text \<open>A text document of the host: its identity, its language tag and \<^verbatim>\<open>getText()\<close>.\<close>

record textDocument =
  uri :: string
  languageId :: string
  getText :: string

text \<open>The body of the POST: \<^verbatim>\<open>JSON.stringify({ code: code, language: backendLanguage })\<close>.\<close>

record analysisRequest =
  code :: string
  language :: string

text \<open>The result payload, with the fields the webview script reads.\<close>

record methodInfo =
  name :: string
  line :: nat
  complexity :: nat
  status :: string
  nestingDepth :: nat

record analysisResult =
  totalMethods :: nat
  totalComplexity :: nat
  methods :: "methodInfo list"

text \<open>
  \<^verbatim>\<open>await response.json()\<close> either yields the parsed body or rejects with an error
  (carrying \<^verbatim>\<open>error.message\<close>).
\<close>

datatype 'a parsed = Parsed 'a | Unparsable string

text \<open>
  How the call to the backend settles: \<^verbatim>\<open>fetch\<close> rejects (\<^verbatim>\<open>error.message\<close>); or it resolves
  with \<^verbatim>\<open>response.ok\<close> false, a \<^verbatim>\<open>statusText\<close> and a body read as \<^verbatim>\<open>{ error?: string }\<close>;
  or it resolves with \<^verbatim>\<open>response.ok\<close> true and a body holding the result.
\<close>

datatype fetch_outcome =
    Rejected string
  | NotOk string "string option parsed"
  | Ok "analysisResult parsed"

text \<open>
  A call of \<^verbatim>\<open>fetch\<close> that has been issued, together with the suspended continuation of
  \<^verbatim>\<open>performAnalysis\<close>: the only local the continuation reads is \<^verbatim>\<open>forcePanelCreation\<close>.
\<close>

record fetchCall =
  body :: analysisRequest
  sentAt :: nat
  forcePanelCreation :: bool

text \<open>\<^verbatim>\<open>vscode.window.showInformationMessage\<close> and \<^verbatim>\<open>showErrorMessage\<close>: the popups.\<close>

datatype notice = InformationMessage string | ErrorMessage string

datatype console_entry = ConsoleLog string | ConsoleError string

text \<open>
  A webview panel of the host. \<open>WebviewContent\<close> stands for the static markup returned by
  \<^verbatim>\<open>getWebviewContent()\<close>. A \<^verbatim>\<open>postMessage\<close> to the panel appends the payload of the
  \<^verbatim>\<open>{ type: 'analysisResult', payload: result }\<close> message to \<open>posted\<close>.
\<close>

datatype markup = Blank | WebviewContent

record webviewPanel =
  html :: markup
  visible :: bool
  disposed :: bool
  posted :: "analysisResult list"

text \<open>
  The whole state. Panels are handles into \<open>panels\<close> (the position of creation); a pending
  timer is a pair of its handle and its deadline in milliseconds on \<open>clock\<close>.
\<close>

record world =
  currentPanel :: "nat option"
  debounceTimeout :: "nat option"
  activeTextEditor :: "textDocument option"
  clock :: nat
  timers :: "(nat \<times> nat) list"
  nextTimer :: nat
  panels :: "webviewPanel list"
  notices :: "notice list"
  console :: "console_entry list"
  sent :: "fetchCall list"
  settled :: "nat list"

definition DEBOUNCE_DELAY_MS :: nat where
  "DEBOUNCE_DELAY_MS = 500"

section \<open>Host primitives\<close>

definition notify :: "notice \<Rightarrow> world \<Rightarrow> world" where
  "notify n w = w\<lparr>notices := notices w @ [n]\<rparr>"

definition consoleWrite :: "console_entry \<Rightarrow> world \<Rightarrow> world" where
  "consoleWrite e w = w\<lparr>console := console w @ [e]\<rparr>"

definition fetch :: "analysisRequest \<Rightarrow> bool \<Rightarrow> world \<Rightarrow> world" where
  "fetch rq force w =
     w\<lparr>sent := sent w @ [\<lparr>body = rq, sentAt = clock w, forcePanelCreation = force\<rparr>]\<rparr>"

definition clearTimeout :: "nat \<Rightarrow> world \<Rightarrow> world" where
  "clearTimeout h w = w\<lparr>timers := filter (\<lambda>(i, dl). i \<noteq> h) (timers w)\<rparr>"

text \<open>\<^verbatim>\<open>setTimeout\<close> returns a fresh handle; the callback is always \<^verbatim>\<open>performAnalysis()\<close>.\<close>

definition setTimeout :: "nat \<Rightarrow> world \<Rightarrow> nat \<times> world" where
  "setTimeout delay w =
     (nextTimer w,
      w\<lparr>timers := timers w @ [(nextTimer w, clock w + delay)], nextTimer := Suc (nextTimer w)\<rparr>)"

definition postMessage :: "nat \<Rightarrow> analysisResult \<Rightarrow> world \<Rightarrow> world" where
  "postMessage p r w =
     (if p < length (panels w)
      then w\<lparr>panels := (panels w)[p := (panels w ! p)\<lparr>posted := posted (panels w ! p) @ [r]\<rparr>]\<rparr>
      else w)"

definition reveal :: "nat \<Rightarrow> world \<Rightarrow> world" where
  "reveal p w =
     (if p < length (panels w)
      then w\<lparr>panels := (panels w)[p := (panels w ! p)\<lparr>visible := True\<rparr>]\<rparr>
      else w)"

definition panelVisible :: "nat \<Rightarrow> world \<Rightarrow> bool" where
  "panelVisible p w = (p < length (panels w) \<and> visible (panels w ! p))"

text \<open>
  \<^verbatim>\<open>vscode.window.createWebviewPanel(..., ViewColumn.Two, ...)\<close>: a new panel, shown, with
  no markup yet; its handle is its position.
\<close>

definition createWebviewPanel :: "world \<Rightarrow> nat \<times> world" where
  "createWebviewPanel w =
     (length (panels w),
      w\<lparr>panels := panels w @ [\<lparr>html = Blank, visible = True, disposed = False, posted = []\<rparr>]\<rparr>)"

definition setHtml :: "nat \<Rightarrow> markup \<Rightarrow> world \<Rightarrow> world" where
  "setHtml p m w =
     (if p < length (panels w)
      then w\<lparr>panels := (panels w)[p := (panels w ! p)\<lparr>html := m\<rparr>]\<rparr>
      else w)"

section \<open>performAnalysis\<close>

text \<open>The \<^verbatim>\<open>switch (languageId)\<close>; \<open>None\<close> is the \<^verbatim>\<open>default\<close> branch.\<close>

definition backendLanguage :: "string \<Rightarrow> string option" where
  "backendLanguage tag =
     (if tag = ''typescript'' \<or> tag = ''javascript'' then Some ''javascript''
      else if tag = ''java'' then Some ''java''
      else if tag = ''python'' then Some ''python''
      else None)"

text \<open>
  The synchronous prefix of \<^verbatim>\<open>performAnalysis(forcePanelCreation)\<close>, up to the \<^verbatim>\<open>await fetch\<close>:
  it samples the active editor, maps the language, gives feedback and issues the request.
\<close>

definition performAnalysis :: "bool \<Rightarrow> world \<Rightarrow> world" where
  "performAnalysis force w =
     (case activeTextEditor w of
        None \<Rightarrow>
          (if force then notify (InformationMessage ''No active editor found to analyze!'') w
           else w)
      | Some document \<Rightarrow>
          (case backendLanguage (languageId document) of
             None \<Rightarrow>
               (if force
                then notify (ErrorMessage (''Unsupported language in VS Code for analysis: '' @
                       languageId document @ ''. Supported: Java, JavaScript, Python.'')) w
                else w)
           | Some lang \<Rightarrow>
               fetch \<lparr>code = getText document, language = lang\<rparr> force
                 (if force
                  then notify (InformationMessage (''Analyzing '' @ lang @ '' code...'')) w
                  else consoleWrite
                         (ConsoleLog (''Debounced analysis triggered for '' @ lang @ '' code.'')) w)))"

text \<open>The \<^verbatim>\<open>catch (error)\<close> block, with \<open>msg\<close> for \<^verbatim>\<open>error.message\<close>.\<close>

definition catchError :: "bool \<Rightarrow> string \<Rightarrow> world \<Rightarrow> world" where
  "catchError force msg w =
     consoleWrite (ConsoleError (''Error during analysis: '' @ msg))
       (if force \<or> currentPanel w = None
        then notify (ErrorMessage
               (''Could not connect to complexity analyzer backend. Is it running? Error: '' @ msg)) w
        else w)"

text \<open>\<^verbatim>\<open>errorData.error || response.statusText\<close>: an absent or empty \<^verbatim>\<open>error\<close> is falsy.\<close>

definition errorText :: "string option \<Rightarrow> string \<Rightarrow> string" where
  "errorText err statusText =
     (case err of None \<Rightarrow> statusText | Some e \<Rightarrow> if e = [] then statusText else e)"

text \<open>
  The webview logic of the success path: update the panel that exists, or create one when
  the command asked for it. The disposal hook and the message hook registered on a new panel
  are \<open>onDidDispose\<close> and \<open>onDidReceiveMessage\<close> below.
\<close>

definition updateOrCreatePanel :: "bool \<Rightarrow> analysisResult \<Rightarrow> world \<Rightarrow> world" where
  "updateOrCreatePanel force r w =
     (case currentPanel w of
        Some p \<Rightarrow>
          (let w1 = postMessage p r w
           in if \<not> panelVisible p w1 \<or> force then reveal p w1 else w1)
      | None \<Rightarrow>
          (if force
           then (let (p, w1) = createWebviewPanel w;
                     w2 = w1\<lparr>currentPanel := Some p\<rparr>;
                     w3 = setHtml p WebviewContent w2
                 in postMessage p r w3)
           else w))"

text \<open>
  The continuation of \<^verbatim>\<open>performAnalysis\<close>, run when the call has settled. A body that does
  not parse makes \<^verbatim>\<open>response.json()\<close> reject inside the \<^verbatim>\<open>try\<close>, so it ends in the
  \<^verbatim>\<open>catch\<close> block like a rejected \<^verbatim>\<open>fetch\<close>.
\<close>

definition performAnalysis_resume :: "bool \<Rightarrow> fetch_outcome \<Rightarrow> world \<Rightarrow> world" where
  "performAnalysis_resume force outcome w =
     (case outcome of
        Rejected msg \<Rightarrow> catchError force msg w
      | NotOk statusText errorData \<Rightarrow>
          (case errorData of
             Unparsable msg \<Rightarrow> catchError force msg w
           | Parsed err \<Rightarrow>
               notify (ErrorMessage (''Analysis failed: '' @ errorText err statusText)) w)
      | Ok payload \<Rightarrow>
          (case payload of
             Unparsable msg \<Rightarrow> catchError force msg w
           | Parsed r \<Rightarrow> updateOrCreatePanel force r w))"

section \<open>The handlers registered by activate, and the hooks on a panel\<close>

text \<open>The command \<^verbatim>\<open>cyclomatic-complexity-analyzer.analyzeComplexity\<close>.\<close>

definition onCommand :: "world \<Rightarrow> world" where
  "onCommand w = performAnalysis True w"

definition relevantLanguages :: "string list" where
  "relevantLanguages = [''java'', ''javascript'', ''typescript'', ''python'']"

text \<open>
  \<^verbatim>\<open>onDidChangeTextDocument\<close>: \<open>d\<close> is \<^verbatim>\<open>event.document\<close>; documents are compared by
  identity.
\<close>

definition onDidChangeTextDocument :: "textDocument \<Rightarrow> world \<Rightarrow> world" where
  "onDidChangeTextDocument d w =
     (case activeTextEditor w of
        None \<Rightarrow> w
      | Some document \<Rightarrow>
          (if uri document = uri d \<and> languageId document \<in> set relevantLanguages
           then (let w1 = (case debounceTimeout w of
                             Some h \<Rightarrow> clearTimeout h w
                           | None \<Rightarrow> w);
                     (h', w2) = setTimeout DEBOUNCE_DELAY_MS w1
                 in w2\<lparr>debounceTimeout := Some h'\<rparr>)
           else w))"

text \<open>\<^verbatim>\<open>onDidChangeActiveTextEditor\<close>: \<open>e\<close> is the new editor, if any.\<close>

definition onDidChangeActiveTextEditor :: "textDocument option \<Rightarrow> world \<Rightarrow> world" where
  "onDidChangeActiveTextEditor e w =
     (case e of
        None \<Rightarrow> w
      | Some document \<Rightarrow>
          (if languageId document \<in> set relevantLanguages then performAnalysis False w else w))"

text \<open>The hook given to \<^verbatim>\<open>currentPanel.onDidDispose\<close>.\<close>

definition onDidDispose :: "world \<Rightarrow> world" where
  "onDidDispose w = w\<lparr>currentPanel := None\<rparr>"

text \<open>The hook given to \<^verbatim>\<open>currentPanel.webview.onDidReceiveMessage\<close>: it only logs.\<close>

definition onDidReceiveMessage :: "string \<Rightarrow> world \<Rightarrow> world" where
  "onDidReceiveMessage message w = consoleWrite (ConsoleLog (''Message from webview: '' @ message)) w"

section \<open>The event loop\<close>

text \<open>
  What can happen to an activated extension. The host first updates its own state, then
  calls the handler:
  \<^item> the user runs the command;
  \<^item> a document changes (the event carries the document after the change; if it is the
    active editor's document, the editor shows the new text);
  \<^item> the active editor changes;
  \<^item> an issued call settles (once), and the continuation of its \<^verbatim>\<open>performAnalysis\<close> runs;
  \<^item> the user closes a live panel, or hides or shows it, or the webview sends a message.
\<close>

datatype event =
    Command
  | DidChangeTextDocument textDocument
  | DidChangeActiveTextEditor "textDocument option"
  | FetchSettled nat fetch_outcome
  | PanelClosed nat
  | PanelVisibility nat bool
  | WebviewMessage nat string

definition livePanel :: "nat \<Rightarrow> world \<Rightarrow> bool" where
  "livePanel p w = (p < length (panels w) \<and> \<not> disposed (panels w ! p))"

definition hostEdit :: "textDocument \<Rightarrow> world \<Rightarrow> world" where
  "hostEdit d w =
     (case activeTextEditor w of
        None \<Rightarrow> w
      | Some document \<Rightarrow> if uri document = uri d then w\<lparr>activeTextEditor := Some d\<rparr> else w)"

fun step :: "event \<Rightarrow> world \<Rightarrow> world" where
  "step Command w = onCommand w"
| "step (DidChangeTextDocument d) w = onDidChangeTextDocument d (hostEdit d w)"
| "step (DidChangeActiveTextEditor e) w =
     onDidChangeActiveTextEditor e (w\<lparr>activeTextEditor := e\<rparr>)"
| "step (FetchSettled i outcome) w =
     (if i < length (sent w) \<and> i \<notin> set (settled w)
      then performAnalysis_resume (forcePanelCreation (sent w ! i)) outcome
             (w\<lparr>settled := i # settled w\<rparr>)
      else w)"
| "step (PanelClosed p) w =
     (if livePanel p w
      then onDidDispose
             (w\<lparr>panels := (panels w)[p := (panels w ! p)\<lparr>visible := False, disposed := True\<rparr>]\<rparr>)
      else w)"
| "step (PanelVisibility p b) w =
     (if livePanel p w
      then w\<lparr>panels := (panels w)[p := (panels w ! p)\<lparr>visible := b\<rparr>]\<rparr>
      else w)"
| "step (WebviewMessage p message) w =
     (if livePanel p w then onDidReceiveMessage message w else w)"

text \<open>
  Timers. A timer whose deadline has come fires: it leaves the pending timers and its
  callback \<^verbatim>\<open>performAnalysis()\<close> runs (without \<^verbatim>\<open>forcePanelCreation\<close>); the variable
  \<^verbatim>\<open>debounceTimeout\<close> keeps the stale handle. Due timers fire in the order of their deadlines.
  No callback arms or clears a timer, so the timers due are those pending at the start.
\<close>

definition fireTimer :: "nat \<times> nat \<Rightarrow> world \<Rightarrow> world" where
  "fireTimer tm w =
     performAnalysis False
       (w\<lparr>clock := max (clock w) (snd tm),
          timers := filter (\<lambda>(i, dl). i \<noteq> fst tm) (timers w)\<rparr>)"

definition dueTimers :: "nat \<Rightarrow> world \<Rightarrow> (nat \<times> nat) list" where
  "dueTimers t w = sort_key snd (filter (\<lambda>(i, dl). dl \<le> t) (timers w))"

text \<open>Let \<open>d\<close> milliseconds pass with no event.\<close>

definition advance :: "nat \<Rightarrow> world \<Rightarrow> world" where
  "advance d w = (fold fireTimer (dueTimers (clock w + d) w) w)\<lparr>clock := clock w + d\<rparr>"

text \<open>A timed run: each event arrives some milliseconds after the one before.\<close>

fun run :: "world \<Rightarrow> (nat \<times> event) list \<Rightarrow> world" where
  "run w [] = w"
| "run w ((d, ev) # rest) = run (step ev (advance d w)) rest"

text \<open>
  The state right after \<^verbatim>\<open>activate\<close>: both module variables \<^verbatim>\<open>undefined\<close>, one line on the
  console, nothing else yet. The handlers are those of \<open>step\<close>.
\<close>

definition activate :: "textDocument option \<Rightarrow> world" where
  "activate e =
     \<lparr>currentPanel = None, debounceTimeout = None, activeTextEditor = e, clock = 0,
      timers = [], nextTimer = 0, panels = [], notices = [],
      console = [ConsoleLog ''Congratulations, \"cyclomatic-complexity-analyzer\" is now active!''],
      sent = [], settled = []\<rparr>"

section \<open>Predicates and sample inputs of the statements\<close>

text \<open>
  A failed attempt: the call cannot complete, the service answers with a non-success
  status, or the body of the answer cannot be read.
\<close>

fun failed :: "fetch_outcome \<Rightarrow> bool" where
  "failed (Rejected msg) = True"
| "failed (NotOk statusText errorData) = True"
| "failed (Ok (Unparsable msg)) = True"
| "failed (Ok (Parsed r)) = False"

text \<open>The panels that exist: created and not yet disposed.\<close>

definition livePanels :: "world \<Rightarrow> webviewPanel list" where
  "livePanels w = filter (\<lambda>pn. \<not> disposed pn) (panels w)"

text \<open>The live panels are exactly the one \<^verbatim>\<open>currentPanel\<close> refers to, if any.\<close>

definition panel_inv :: "world \<Rightarrow> bool" where
  "panel_inv w = (\<forall>p. livePanel p w \<longleftrightarrow> currentPanel w = Some p)"

text \<open>Every pending timer is the one \<^verbatim>\<open>debounceTimeout\<close> refers to.\<close>

definition timer_inv :: "world \<Rightarrow> bool" where
  "timer_inv w = list_all (\<lambda>tm. debounceTimeout w = Some (fst tm)) (timers w)"

text \<open>
  At most one timer is pending; it is the one \<^verbatim>\<open>debounceTimeout\<close> refers to, and its deadline
  lies ahead.
\<close>

definition timer_shape :: "world \<Rightarrow> bool" where
  "timer_shape w =
     (length (timers w) \<le> 1 \<and>
      list_all (\<lambda>tm. clock w < snd tm \<and> debounceTimeout w = Some (fst tm)) (timers w))"

text \<open>An edit of document \<open>doc\<close> that leaves it with the text \<open>t\<close>.\<close>

definition edit :: "textDocument \<Rightarrow> string \<Rightarrow> event" where
  "edit doc t = DidChangeTextDocument (doc\<lparr>getText := t\<rparr>)"

text \<open>A burst of further edits of \<open>doc\<close>, each given with its delay after the event before it.\<close>

definition burst :: "textDocument \<Rightarrow> (nat \<times> string) list \<Rightarrow> (nat \<times> event) list" where
  "burst doc es = map (\<lambda>(gap, t). (gap, edit doc t)) es"

definition pyDoc :: textDocument where
  "pyDoc = \<lparr>uri = ''a.py'', languageId = ''python'', getText = ''def f(): pass''\<rparr>"

definition tsDoc :: textDocument where
  "tsDoc = \<lparr>uri = ''b.ts'', languageId = ''typescript'', getText = ''let x = 1;''\<rparr>"

definition rbDoc :: textDocument where
  "rbDoc = \<lparr>uri = ''c.rb'', languageId = ''ruby'', getText = ''puts 1''\<rparr>"

definition oneMethod :: analysisResult where
  "oneMethod =
     \<lparr>totalMethods = 1, totalComplexity = 1,
      methods = [\<lparr>name = ''f'', line = 1, complexity = 1, status = ''Simple'', nestingDepth = 0\<rparr>]\<rparr>"

text \<open>
  A session in which the command has opened the panel: the Python document is active, the
  command runs, and its call succeeds ten milliseconds later.
\<close>

definition panelOpen :: world where
  "panelOpen = run (activate (Some pyDoc)) [(0, Command), (10, FetchSettled 0 (Ok (Parsed oneMethod)))]"

text \<open>
  The same session five milliseconds later: the user edits the document, the debounce
  timer expires and issues the background call (the second call, number 1), still pending.
\<close>

definition typingWithPanel :: world where
  "typingWithPanel = advance 600 (run panelOpen [(5, edit pyDoc ''def f(): return 1'')])"

text \<open>A session with a pending debounce timer: an edit of the active Python document.\<close>

definition timerPending :: world where
  "timerPending = step (edit pyDoc ''def g(): pass'') (activate (Some pyDoc))"

text \<open>The same session after the editor has been closed: the timer is pending, no editor is active.\<close>

definition editorClosed :: world where
  "editorClosed = step (DidChangeActiveTextEditor None) timerPending"

section \<open>What each part leaves alone\<close>

lemma performAnalysis_frame [simp]:
  "currentPanel (performAnalysis force w) = currentPanel w"
  "debounceTimeout (performAnalysis force w) = debounceTimeout w"
  "activeTextEditor (performAnalysis force w) = activeTextEditor w"
  "clock (performAnalysis force w) = clock w"
  "timers (performAnalysis force w) = timers w"
  "nextTimer (performAnalysis force w) = nextTimer w"
  "panels (performAnalysis force w) = panels w"
  "settled (performAnalysis force w) = settled w"
  by (simp_all add: performAnalysis_def notify_def consoleWrite_def fetch_def
      split: option.splits)

lemma catchError_frame [simp]:
  "currentPanel (catchError force msg w) = currentPanel w"
  "debounceTimeout (catchError force msg w) = debounceTimeout w"
  "activeTextEditor (catchError force msg w) = activeTextEditor w"
  "clock (catchError force msg w) = clock w"
  "timers (catchError force msg w) = timers w"
  "nextTimer (catchError force msg w) = nextTimer w"
  "panels (catchError force msg w) = panels w"
  "sent (catchError force msg w) = sent w"
  "settled (catchError force msg w) = settled w"
  by (simp_all add: catchError_def notify_def consoleWrite_def)

lemma updateOrCreatePanel_frame [simp]:
  "debounceTimeout (updateOrCreatePanel force r w) = debounceTimeout w"
  "activeTextEditor (updateOrCreatePanel force r w) = activeTextEditor w"
  "clock (updateOrCreatePanel force r w) = clock w"
  "timers (updateOrCreatePanel force r w) = timers w"
  "nextTimer (updateOrCreatePanel force r w) = nextTimer w"
  "notices (updateOrCreatePanel force r w) = notices w"
  "console (updateOrCreatePanel force r w) = console w"
  "sent (updateOrCreatePanel force r w) = sent w"
  "settled (updateOrCreatePanel force r w) = settled w"
  by (simp_all add: updateOrCreatePanel_def postMessage_def reveal_def setHtml_def
      createWebviewPanel_def Let_def split: option.splits)

lemma performAnalysis_resume_frame [simp]:
  "debounceTimeout (performAnalysis_resume force outcome w) = debounceTimeout w"
  "activeTextEditor (performAnalysis_resume force outcome w) = activeTextEditor w"
  "clock (performAnalysis_resume force outcome w) = clock w"
  "timers (performAnalysis_resume force outcome w) = timers w"
  "nextTimer (performAnalysis_resume force outcome w) = nextTimer w"
  "sent (performAnalysis_resume force outcome w) = sent w"
  "settled (performAnalysis_resume force outcome w) = settled w"
  by (simp_all add: performAnalysis_resume_def notify_def
      split: fetch_outcome.splits parsed.splits)

lemma backendLanguage_relevant:
  "tag \<in> set relevantLanguages \<longleftrightarrow> backendLanguage tag \<noteq> None"
  by (auto simp: relevantLanguages_def backendLanguage_def)

lemma advance_none_due:
  assumes "\<forall>tm \<in> set (timers w). clock w + d < snd tm"
  shows "advance d w = w\<lparr>clock := clock w + d\<rparr>"
proof -
  have "filter (\<lambda>(i, dl). dl \<le> clock w + d) (timers w) = []"
    using assms by (auto simp: filter_empty_conv)
  then show ?thesis by (simp add: advance_def dueTimers_def)
qed

lemma advance_single_due:
  assumes "timers w = [(h, dl)]" and "dl \<le> clock w + d"
  shows "advance d w =
         (performAnalysis False (w\<lparr>clock := max (clock w) dl, timers := []\<rparr>))\<lparr>clock := clock w + d\<rparr>"
  using assms by (simp add: advance_def dueTimers_def fireTimer_def)

section \<open>At most one live panel\<close>

lemma livePanel_performAnalysis [simp]:
  "livePanel p (performAnalysis force w) = livePanel p w"
  by (simp add: livePanel_def)

lemma panel_inv_performAnalysis [simp]:
  "panel_inv (performAnalysis force w) = panel_inv w"
  by (simp add: panel_inv_def)

lemma panel_inv_updateOrCreatePanel:
  assumes "panel_inv w"
  shows "panel_inv (updateOrCreatePanel force r w)"
proof (cases "currentPanel w")
  case None
  then have none_live: "\<And>q. \<not> livePanel q w"
    using assms by (auto simp: panel_inv_def)
  show ?thesis
  proof (cases force)
    case False
    with None assms show ?thesis by (simp add: updateOrCreatePanel_def)
  next
    case True
    have "livePanel q (updateOrCreatePanel True r w) \<longleftrightarrow> q = length (panels w)" for q
      using None none_live [of q]
      by (auto simp: updateOrCreatePanel_def createWebviewPanel_def setHtml_def postMessage_def
          livePanel_def nth_append nth_list_update split: if_splits)
    moreover have "currentPanel (updateOrCreatePanel True r w) = Some (length (panels w))"
      using None
      by (simp add: updateOrCreatePanel_def createWebviewPanel_def setHtml_def postMessage_def)
    ultimately show ?thesis using True by (auto simp: panel_inv_def)
  qed
next
  case (Some p)
  have "livePanel q (updateOrCreatePanel force r w) \<longleftrightarrow> livePanel q w" for q
    using Some
    by (auto simp: updateOrCreatePanel_def postMessage_def reveal_def panelVisible_def
        livePanel_def Let_def nth_list_update split: if_splits)
  moreover have "currentPanel (updateOrCreatePanel force r w) = currentPanel w"
    using Some
    by (simp add: updateOrCreatePanel_def postMessage_def reveal_def Let_def)
  ultimately show ?thesis using assms by (simp add: panel_inv_def)
qed

lemma panel_inv_resume:
  assumes "panel_inv w"
  shows "panel_inv (performAnalysis_resume force outcome w)"
proof (cases "failed outcome")
  case True
  then have "currentPanel (performAnalysis_resume force outcome w) = currentPanel w"
    and "panels (performAnalysis_resume force outcome w) = panels w"
    by (cases outcome rule: failed.cases;
        simp add: performAnalysis_resume_def notify_def split: parsed.splits)+
  with assms show ?thesis by (simp add: panel_inv_def livePanel_def)
next
  case False
  then obtain r where "outcome = Ok (Parsed r)"
    by (cases outcome rule: failed.cases) simp_all
  with assms show ?thesis
    by (simp add: performAnalysis_resume_def panel_inv_updateOrCreatePanel)
qed

lemma panel_inv_step:
  assumes "panel_inv w"
  shows "panel_inv (step ev w)"
proof (cases ev)
  case Command
  with assms show ?thesis by (simp add: onCommand_def)
next
  case (DidChangeTextDocument d)
  have "panels (step ev w) = panels w" and "currentPanel (step ev w) = currentPanel w"
    using DidChangeTextDocument
    by (simp_all add: onDidChangeTextDocument_def hostEdit_def setTimeout_def clearTimeout_def
        Let_def split: option.splits)
  with assms show ?thesis by (simp add: panel_inv_def livePanel_def)
next
  case (DidChangeActiveTextEditor e)
  have "panels (step ev w) = panels w" and "currentPanel (step ev w) = currentPanel w"
    using DidChangeActiveTextEditor
    by (simp_all add: onDidChangeActiveTextEditor_def split: option.splits)
  with assms show ?thesis by (simp add: panel_inv_def livePanel_def)
next
  case (FetchSettled i outcome)
  have "panel_inv (w\<lparr>settled := i # settled w\<rparr>)"
    using assms by (simp add: panel_inv_def livePanel_def)
  then show ?thesis using FetchSettled assms by (simp add: panel_inv_resume)
next
  case (PanelClosed p)
  show ?thesis
  proof (cases "livePanel p w")
    case False
    with PanelClosed assms show ?thesis by simp
  next
    case True
    then have only: "\<And>q. livePanel q w \<Longrightarrow> q = p"
      using assms by (simp add: panel_inv_def)
    have "\<not> livePanel q (step ev w)" for q
      using PanelClosed True only [of q]
      by (auto simp: onDidDispose_def livePanel_def nth_list_update)
    moreover have "currentPanel (step ev w) = None"
      using PanelClosed True by (simp add: onDidDispose_def)
    ultimately show ?thesis by (simp add: panel_inv_def)
  qed
next
  case (PanelVisibility p b)
  have "livePanel q (step ev w) \<longleftrightarrow> livePanel q w" for q
    using PanelVisibility by (auto simp: livePanel_def nth_list_update)
  moreover have "currentPanel (step ev w) = currentPanel w"
    using PanelVisibility by simp
  ultimately show ?thesis using assms by (simp add: panel_inv_def)
next
  case (WebviewMessage p message)
  have "panels (step ev w) = panels w" and "currentPanel (step ev w) = currentPanel w"
    using WebviewMessage by (simp_all add: onDidReceiveMessage_def consoleWrite_def)
  with assms show ?thesis by (simp add: panel_inv_def livePanel_def)
qed

lemma fold_fireTimer_frame [simp]:
  "currentPanel (fold fireTimer tms w) = currentPanel w"
  "panels (fold fireTimer tms w) = panels w"
  "debounceTimeout (fold fireTimer tms w) = debounceTimeout w"
  "activeTextEditor (fold fireTimer tms w) = activeTextEditor w"
  by (induction tms arbitrary: w; simp add: fireTimer_def)+

lemma panel_inv_advance:
  "panel_inv (advance d w) = panel_inv w"
  by (simp add: panel_inv_def livePanel_def advance_def)

lemma panel_inv_run:
  "panel_inv w \<Longrightarrow> panel_inv (run w evs)"
  by (induction w evs rule: run.induct) (simp_all add: panel_inv_step panel_inv_advance)

lemma panel_inv_activate: "panel_inv (activate e)"
  by (simp add: panel_inv_def livePanel_def activate_def)

lemma panel_inv_livePanels:
  assumes "panel_inv w"
  shows "length (livePanels w) \<le> 1"
proof -
  have "length (livePanels w) = card {p. livePanel p w}"
    by (simp add: livePanels_def livePanel_def length_filter_conv_card)
  also have "{p. livePanel p w} = set_option (currentPanel w)"
    using assms by (auto simp: panel_inv_def)
  also have "card (set_option (currentPanel w)) \<le> 1"
    by (cases "currentPanel w") simp_all
  finally show ?thesis .
qed

section \<open>The debounce timer\<close>

lemma timers_cleared:
  assumes "timer_inv w"
  shows "timers (case debounceTimeout w of Some h \<Rightarrow> clearTimeout h w | None \<Rightarrow> w) = []"
proof (cases "debounceTimeout w")
  case None
  with assms show ?thesis by (cases "timers w") (simp_all add: timer_inv_def)
next
  case (Some h)
  with assms show ?thesis
    by (auto simp: timer_inv_def clearTimeout_def filter_empty_conv list_all_iff)
qed

lemma step_edit_arms:
  assumes "timer_inv w" and "activeTextEditor w = Some d" and "uri d = uri doc"
    and "languageId doc \<in> set relevantLanguages"
  shows "step (edit doc t) w =
         w\<lparr>activeTextEditor := Some (doc\<lparr>getText := t\<rparr>),
           timers := [(nextTimer w, clock w + DEBOUNCE_DELAY_MS)],
           nextTimer := Suc (nextTimer w),
           debounceTimeout := Some (nextTimer w)\<rparr>"
proof -
  let ?w = "hostEdit (doc\<lparr>getText := t\<rparr>) w"
  have host: "?w = w\<lparr>activeTextEditor := Some (doc\<lparr>getText := t\<rparr>)\<rparr>"
    using assms(2,3) by (simp add: hostEdit_def)
  have "timer_inv ?w"
    using assms(1) by (simp add: host timer_inv_def)
  from timers_cleared [OF this]
  show ?thesis
    using assms(4)
    by (cases "debounceTimeout w")
      (simp_all add: edit_def onDidChangeTextDocument_def host setTimeout_def clearTimeout_def)
qed

lemma burst_arms:
  assumes "timer_inv w" and "activeTextEditor w = Some d" and "uri d = uri doc"
    and "languageId doc \<in> set relevantLanguages"
    and "list_all (\<lambda>(gap, t). gap < DEBOUNCE_DELAY_MS) es"
  shows "run (step (edit doc t0) w) (burst doc es) =
         w\<lparr>activeTextEditor := Some (doc\<lparr>getText := last (t0 # map snd es)\<rparr>),
           clock := clock w + sum_list (map fst es),
           timers := [(nextTimer w + length es,
                       clock w + sum_list (map fst es) + DEBOUNCE_DELAY_MS)],
           nextTimer := Suc (nextTimer w + length es),
           debounceTimeout := Some (nextTimer w + length es)\<rparr>"
  using assms
proof (induction es arbitrary: w d t0)
  case Nil
  then show ?case by (simp add: burst_def step_edit_arms)
next
  case (Cons e es)
  obtain gap t where e: "e = (gap, t)" by (cases e)
  let ?w1 = "step (edit doc t0) w"
  have w1: "?w1 = w\<lparr>activeTextEditor := Some (doc\<lparr>getText := t0\<rparr>),
           timers := [(nextTimer w, clock w + DEBOUNCE_DELAY_MS)],
           nextTimer := Suc (nextTimer w),
           debounceTimeout := Some (nextTimer w)\<rparr>"
    using Cons.prems by (simp add: step_edit_arms)
  have gap: "gap < DEBOUNCE_DELAY_MS" and rest: "list_all (\<lambda>(gap, t). gap < DEBOUNCE_DELAY_MS) es"
    using Cons.prems(5) by (simp_all add: e)
  let ?w2 = "advance gap ?w1"
  have w2: "?w2 = w\<lparr>activeTextEditor := Some (doc\<lparr>getText := t0\<rparr>),
           clock := clock w + gap,
           timers := [(nextTimer w, clock w + DEBOUNCE_DELAY_MS)],
           nextTimer := Suc (nextTimer w),
           debounceTimeout := Some (nextTimer w)\<rparr>"
    using gap by (simp add: w1 advance_none_due)
  have inv2: "timer_inv ?w2" by (simp add: w2 timer_inv_def)
  have ed2: "activeTextEditor ?w2 = Some (doc\<lparr>getText := t0\<rparr>)" by (simp add: w2)
  have "run ?w1 (burst doc (e # es)) = run (step (edit doc t) ?w2) (burst doc es)"
    by (simp add: burst_def e)
  also note Cons.IH [OF inv2 ed2 _ Cons.prems(4) rest, of t]
  finally show ?case
    by (simp add: w2 e add.assoc)
qed

lemma timer_inv_step:
  assumes "timer_inv w"
  shows "timer_inv (step ev w)"
proof (cases ev)
  case (DidChangeTextDocument d)
  let ?w = "hostEdit d w"
  have inv: "timer_inv ?w"
    using assms by (simp add: hostEdit_def timer_inv_def split: option.splits)
  show ?thesis
    using timers_cleared [OF inv] DidChangeTextDocument inv
    by (cases "debounceTimeout (hostEdit d w)")
      (simp_all add: onDidChangeTextDocument_def setTimeout_def clearTimeout_def timer_inv_def
        Let_def split: option.splits)
next
  case (DidChangeActiveTextEditor e)
  with assms show ?thesis
    by (simp add: onDidChangeActiveTextEditor_def timer_inv_def split: option.splits)
next
  case (PanelClosed p)
  with assms show ?thesis by (simp add: onDidDispose_def timer_inv_def)
qed (use assms in \<open>simp_all add: onCommand_def onDidReceiveMessage_def consoleWrite_def timer_inv_def\<close>)

lemma timers_fold_fireTimer:
  "set (timers (fold fireTimer tms w)) \<subseteq> set (timers w)"
proof (induction tms arbitrary: w)
  case Nil
  show ?case by simp
next
  case (Cons tm tms)
  have "set (timers (fold fireTimer tms (fireTimer tm w))) \<subseteq> set (timers (fireTimer tm w))"
    by (rule Cons.IH)
  also have "\<dots> \<subseteq> set (timers w)" by (auto simp: fireTimer_def)
  finally show ?case by simp
qed

lemma timer_inv_advance:
  assumes "timer_inv w"
  shows "timer_inv (advance d w)"
  using assms timers_fold_fireTimer [of "dueTimers (clock w + d) w" w]
  by (auto simp: timer_inv_def advance_def list_all_iff)

lemma timer_inv_run:
  "timer_inv w \<Longrightarrow> timer_inv (run w evs)"
  by (induction w evs rule: run.induct) (simp_all add: timer_inv_step timer_inv_advance)

lemma timer_inv_activate: "timer_inv (activate e)"
  by (simp add: timer_inv_def activate_def)

lemma sent_performAnalysis:
  "sent (performAnalysis force w) =
   sent w @ (case activeTextEditor w of
               None \<Rightarrow> []
             | Some doc \<Rightarrow>
                 (case backendLanguage (languageId doc) of
                    None \<Rightarrow> []
                  | Some l \<Rightarrow> [\<lparr>body = \<lparr>code = getText doc, language = l\<rparr>, sentAt = clock w,
                                 forcePanelCreation = force\<rparr>]))"
  by (simp add: performAnalysis_def fetch_def notify_def consoleWrite_def split: option.splits)

lemma notices_performAnalysis_background:
  "notices (performAnalysis False w) = notices w"
  by (simp add: performAnalysis_def fetch_def consoleWrite_def split: option.splits)

lemma advance_to_deadline:
  assumes "timers w = [(h, dl)]" and "dl \<le> clock w + k"
  shows "sent (advance k w) =
         sent (performAnalysis False (w\<lparr>clock := max (clock w) dl, timers := []\<rparr>))"
    and "notices (advance k w) = notices w"
    and "timers (advance k w) = []"
  using assms by (simp_all add: advance_single_due notices_performAnalysis_background)

text \<open>In every state reached from activation no timer or exactly one is pending, not yet due.\<close>

lemma timer_shape_cases:
  assumes "timer_shape w"
  shows "timers w = [] \<or> (\<exists>h dl. timers w = [(h, dl)] \<and> clock w < dl)"
proof (cases "timers w")
  case Nil
  then show ?thesis by simp
next
  case (Cons tm rest)
  with assms have "rest = []" and "clock w < snd tm"
    by (simp_all add: timer_shape_def)
  with Cons show ?thesis by (cases tm) simp
qed

lemma timer_shape_inv: "timer_shape w \<Longrightarrow> timer_inv w"
  by (auto simp: timer_shape_def timer_inv_def list_all_iff)

lemma timer_shape_step:
  assumes "timer_shape w"
  shows "timer_shape (step ev w)"
proof (cases ev)
  case (DidChangeTextDocument d)
  let ?w = "hostEdit d w"
  have shape: "timer_shape ?w"
    using assms by (simp add: hostEdit_def timer_shape_def split: option.splits)
  show ?thesis
    using timers_cleared [OF timer_shape_inv [OF shape]] DidChangeTextDocument shape
    by (cases "debounceTimeout (hostEdit d w)")
      (simp_all add: onDidChangeTextDocument_def setTimeout_def clearTimeout_def timer_shape_def
        DEBOUNCE_DELAY_MS_def Let_def split: option.splits)
next
  case (DidChangeActiveTextEditor e)
  with assms show ?thesis
    by (simp add: onDidChangeActiveTextEditor_def timer_shape_def split: option.splits)
next
  case (PanelClosed p)
  with assms show ?thesis by (simp add: onDidDispose_def timer_shape_def)
qed (use assms in \<open>simp_all add: onCommand_def onDidReceiveMessage_def consoleWrite_def timer_shape_def\<close>)

lemma timer_shape_advance:
  assumes "timer_shape w"
  shows "timer_shape (advance d w)"
proof -
  from timer_shape_cases [OF assms] show ?thesis
  proof
    assume "timers w = []"
    then have "advance d w = w\<lparr>clock := clock w + d\<rparr>"
      by (intro advance_none_due) simp
    with \<open>timers w = []\<close> show ?thesis by (simp add: timer_shape_def)
  next
    assume "\<exists>h dl. timers w = [(h, dl)] \<and> clock w < dl"
    then obtain h dl where tm: "timers w = [(h, dl)]" by blast
    show ?thesis
    proof (cases "clock w + d < dl")
      case True
      then have "advance d w = w\<lparr>clock := clock w + d\<rparr>"
        using tm by (intro advance_none_due) simp
      with True tm assms show ?thesis by (simp add: timer_shape_def)
    next
      case False
      then have "dl \<le> clock w + d" by (simp add: not_less)
      with tm have "timers (advance d w) = []"
        by (rule advance_to_deadline(3))
      then show ?thesis by (simp add: timer_shape_def)
    qed
  qed
qed

lemma timer_shape_run:
  "timer_shape w \<Longrightarrow> timer_shape (run w evs)"
  by (induction w evs rule: run.induct) (simp_all add: timer_shape_step timer_shape_advance)

lemma timer_shape_activate: "timer_shape (activate e)"
  by (simp add: timer_shape_def activate_def)

lemma reachable_timers:
  "timers (run (activate e) evs) = [] \<or>
   (\<exists>h dl. timers (run (activate e) evs) = [(h, dl)] \<and> clock (run (activate e) evs) < dl)"
  by (rule timer_shape_cases [OF timer_shape_run [OF timer_shape_activate]])

section \<open>Evaluating the model on sample inputs\<close>

lemmas model_defs =
  activate_def advance_def dueTimers_def fireTimer_def performAnalysis_def
  performAnalysis_resume_def onCommand_def onDidChangeTextDocument_def
  onDidChangeActiveTextEditor_def onDidDispose_def onDidReceiveMessage_def hostEdit_def
  backendLanguage_def notify_def fetch_def consoleWrite_def updateOrCreatePanel_def
  createWebviewPanel_def setHtml_def postMessage_def reveal_def panelVisible_def
  setTimeout_def clearTimeout_def DEBOUNCE_DELAY_MS_def relevantLanguages_def errorText_def
  catchError_def livePanel_def edit_def burst_def

lemmas sample_defs =
  pyDoc_def tsDoc_def rbDoc_def oneMethod_def panelOpen_def typingWithPanel_def timerPending_def
  editorClosed_def

section \<open>Helper facts for the claims\<close>

lemma manual_success_with_panel:
  assumes "currentPanel w = Some p" and "p < length (panels w)"
  shows "currentPanel (performAnalysis_resume True (Ok (Parsed r)) w) = Some p"
    and "length (panels (performAnalysis_resume True (Ok (Parsed r)) w)) = length (panels w)"
    and "posted (panels (performAnalysis_resume True (Ok (Parsed r)) w) ! p)
           = posted (panels w ! p) @ [r]"
  using assms
  by (simp_all add: performAnalysis_resume_def updateOrCreatePanel_def postMessage_def
      reveal_def Let_def)

lemma manual_successes_with_panel:
  assumes "currentPanel w = Some p" and "p < length (panels w)"
  shows "currentPanel (fold (\<lambda>r. performAnalysis_resume True (Ok (Parsed r))) rs w) = Some p
       \<and> length (panels (fold (\<lambda>r. performAnalysis_resume True (Ok (Parsed r))) rs w))
           = length (panels w)
       \<and> posted (panels (fold (\<lambda>r. performAnalysis_resume True (Ok (Parsed r))) rs w) ! p)
           = posted (panels w ! p) @ rs"
  using assms
proof (induction rs arbitrary: w)
  case Nil
  show ?case using Nil by simp
next
  case (Cons r rs)
  let ?w = "performAnalysis_resume True (Ok (Parsed r)) w"
  note w = manual_success_with_panel [OF Cons.prems, of r]
  have "currentPanel ?w = Some p" and "p < length (panels ?w)"
    using Cons.prems by (simp_all only: w)
  from Cons.IH [OF this] show ?case
    by (simp only: w fold_simps append.simps append_assoc)
qed

lemma step_focus_frame:
  "timers (step (DidChangeActiveTextEditor e) w) = timers w"
  "clock (step (DidChangeActiveTextEditor e) w) = clock w"
  "activeTextEditor (step (DidChangeActiveTextEditor e) w) = e"
  "notices (step (DidChangeActiveTextEditor e) w) = notices w"
  by (simp_all add: onDidChangeActiveTextEditor_def notices_performAnalysis_background
      split: option.splits)

lemma sent_step_focus:
  "sent (step (DidChangeActiveTextEditor e) w) =
   sent w @ (case e of
               None \<Rightarrow> []
             | Some doc \<Rightarrow>
                 (case backendLanguage (languageId doc) of
                    None \<Rightarrow> []
                  | Some l \<Rightarrow> [\<lparr>body = \<lparr>code = getText doc, language = l\<rparr>, sentAt = clock w,
                                 forcePanelCreation = False\<rparr>]))"
proof (cases e)
  case None
  then show ?thesis by (simp add: onDidChangeActiveTextEditor_def)
next
  case (Some doc)
  show ?thesis
  proof (cases "languageId doc \<in> set relevantLanguages")
    case True
    with Some show ?thesis
      by (simp add: onDidChangeActiveTextEditor_def sent_performAnalysis split: option.splits)
  next
    case False
    then have "backendLanguage (languageId doc) = None"
      by (simp add: backendLanguage_relevant)
    with Some False show ?thesis by (simp add: onDidChangeActiveTextEditor_def)
  qed
qed

lemma sent_fireTimer:
  "sent (fireTimer tm w) =
   sent w @ (case activeTextEditor w of
               None \<Rightarrow> []
             | Some doc \<Rightarrow>
                 (case backendLanguage (languageId doc) of
                    None \<Rightarrow> []
                  | Some l \<Rightarrow> [\<lparr>body = \<lparr>code = getText doc, language = l\<rparr>,
                                 sentAt = max (clock w) (snd tm), forcePanelCreation = False\<rparr>]))"
  by (simp add: fireTimer_def sent_performAnalysis split: option.splits)

lemma advance_fires_pending:
  assumes "timers w = [(h, dl)]" and "clock w < dl"
  shows "sent (advance (dl - clock w) w) =
         sent w @ (case activeTextEditor w of
                     None \<Rightarrow> []
                   | Some doc \<Rightarrow>
                       (case backendLanguage (languageId doc) of
                          None \<Rightarrow> []
                        | Some l \<Rightarrow> [\<lparr>body = \<lparr>code = getText doc, language = l\<rparr>,
                                       sentAt = dl, forcePanelCreation = False\<rparr>]))"
proof -
  have "sent (advance (dl - clock w) w) =
        sent (performAnalysis False (w\<lparr>clock := max (clock w) dl, timers := []\<rparr>))"
    using assms by (intro advance_to_deadline(1)) simp_all
  then show ?thesis
    using assms(2) by (simp add: sent_performAnalysis max_def split: option.splits)
qed

lemma step_command_frame:
  "timers (step Command w) = timers w"
  "clock (step Command w) = clock w"
  "activeTextEditor (step Command w) = activeTextEditor w"
  by (simp_all add: onCommand_def)

lemma notices_performAnalysis:
  "notices (performAnalysis force w) =
     notices w @
       (if force
        then [case activeTextEditor w of
                None \<Rightarrow> InformationMessage ''No active editor found to analyze!''
              | Some doc \<Rightarrow>
                  (case backendLanguage (languageId doc) of
                     None \<Rightarrow>
                       ErrorMessage (''Unsupported language in VS Code for analysis: '' @
                         languageId doc @ ''. Supported: Java, JavaScript, Python.'')
                   | Some l \<Rightarrow> InformationMessage (''Analyzing '' @ l @ '' code...''))]
        else [])"
  by (simp add: performAnalysis_def notify_def fetch_def consoleWrite_def split: option.splits)

lemma notices_fireTimer: "notices (fireTimer tm w) = notices w"
  by (simp add: fireTimer_def notices_performAnalysis_background)

section \<open>The claims\<close>

subsection \<open>C1\<close>

text \<open>
  Claim C1 says that a failed attempt shows an error notice exactly when the command
  triggered it or no panel is open, for a non-success status as for a call that cannot
  complete. The \<^verbatim>\<open>catch\<close> block has that guard; the \<^verbatim>\<open>!response.ok\<close> branch has none. Here
  the panel is open and the attempt comes from the debounce timer: when the service answers
  with status 500 and the body \<^verbatim>\<open>{"error": "boom"}\<close>, the notice "Analysis failed: boom" is
  shown; when the same call is refused by the network, nothing is shown.
\<close>

theorem service_error_notice_during_background_typing:
  "currentPanel typingWithPanel = Some 0
   \<and> sent typingWithPanel ! 1 =
        \<lparr>body = \<lparr>code = ''def f(): return 1'', language = ''python''\<rparr>, sentAt = 515,
          forcePanelCreation = False\<rparr>
   \<and> notices (step (FetchSettled 1 (NotOk ''Internal Server Error'' (Parsed (Some ''boom''))))
        typingWithPanel) = notices typingWithPanel @ [ErrorMessage ''Analysis failed: boom'']
   \<and> notices (step (FetchSettled 1 (Rejected ''ECONNREFUSED'')) typingWithPanel)
       = notices typingWithPanel"
  by (simp add: sample_defs model_defs)

subsection \<open>C2\<close>

text \<open>
  Claim C2 says that the command and a focus change cancel the pending debounce timer.
  Neither handler touches \<^verbatim>\<open>debounceTimeout\<close>: with a timer armed at 0 ms for 500 ms, a
  command (or a switch to the TypeScript document) at 100 ms leaves the timer pending, and at
  500 ms it fires a background attempt of its own.
\<close>

theorem command_and_focus_leave_timer_armed:
  "timers timerPending = [(0, 500)]
   \<and> timers (step Command (advance 100 timerPending)) = [(0, 500)]
   \<and> map (\<lambda>c. (sentAt c, forcePanelCreation c))
         (sent (advance 400 (step Command (advance 100 timerPending)))) = [(100, True), (500, False)]
   \<and> timers (step (DidChangeActiveTextEditor (Some tsDoc)) (advance 100 timerPending)) = [(0, 500)]
   \<and> map (\<lambda>c. (sentAt c, code (body c)))
         (sent (advance 400 (step (DidChangeActiveTextEditor (Some tsDoc)) (advance 100 timerPending))))
       = [(100, ''let x = 1;''), (500, ''let x = 1;'')]"
  by (simp add: sample_defs model_defs)

text \<open>
  Claim C2, as the code has it: in every state in which a debounce timer is pending, the
  command and a focus change send their analysis request at once, stamped with the current
  time: the command for the editor that is active, the focus change for the newly focused
  editor (and no request when there is no such editor or its language is not supported).
  Neither cancels the pending timer: it stays armed with its deadline, and at that deadline
  it runs a background attempt of its own, for the editor active then. A state reached from
  activation with a timer pending has \<open>timers w = [(h, dl)]\<close> and \<open>clock w < dl\<close>
  (\<open>reachable_timers\<close>).
\<close>

theorem immediate_attempt_keeps_debounce_timer:
  assumes "timers w = [(h, dl)]" and "clock w < dl"
  shows "sent (step Command w) =
           sent w @ (case activeTextEditor w of
                       None \<Rightarrow> []
                     | Some doc \<Rightarrow>
                         (case backendLanguage (languageId doc) of
                            None \<Rightarrow> []
                          | Some l \<Rightarrow> [\<lparr>body = \<lparr>code = getText doc, language = l\<rparr>,
                                         sentAt = clock w, forcePanelCreation = True\<rparr>]))
       \<and> timers (step Command w) = [(h, dl)]
       \<and> sent (advance (dl - clock w) (step Command w)) =
           sent (step Command w) @
             (case activeTextEditor w of
                None \<Rightarrow> []
              | Some doc \<Rightarrow>
                  (case backendLanguage (languageId doc) of
                     None \<Rightarrow> []
                   | Some l \<Rightarrow> [\<lparr>body = \<lparr>code = getText doc, language = l\<rparr>,
                                  sentAt = dl, forcePanelCreation = False\<rparr>]))
       \<and> sent (step (DidChangeActiveTextEditor e) w) =
           sent w @ (case e of
                       None \<Rightarrow> []
                     | Some doc \<Rightarrow>
                         (case backendLanguage (languageId doc) of
                            None \<Rightarrow> []
                          | Some l \<Rightarrow> [\<lparr>body = \<lparr>code = getText doc, language = l\<rparr>,
                                         sentAt = clock w, forcePanelCreation = False\<rparr>]))
       \<and> timers (step (DidChangeActiveTextEditor e) w) = [(h, dl)]
       \<and> sent (advance (dl - clock w) (step (DidChangeActiveTextEditor e) w)) =
           sent (step (DidChangeActiveTextEditor e) w) @
             (case e of
                None \<Rightarrow> []
              | Some doc \<Rightarrow>
                  (case backendLanguage (languageId doc) of
                     None \<Rightarrow> []
                   | Some l \<Rightarrow> [\<lparr>body = \<lparr>code = getText doc, language = l\<rparr>,
                                  sentAt = dl, forcePanelCreation = False\<rparr>]))"
proof -
  let ?c = "step Command w" and ?f = "step (DidChangeActiveTextEditor e) w"
  have c0: "?c = performAnalysis True w" by (simp add: onCommand_def)
  have c1: "sent ?c =
           sent w @ (case activeTextEditor w of
                       None \<Rightarrow> []
                     | Some doc \<Rightarrow>
                         (case backendLanguage (languageId doc) of
                            None \<Rightarrow> []
                          | Some l \<Rightarrow> [\<lparr>body = \<lparr>code = getText doc, language = l\<rparr>,
                                         sentAt = clock w, forcePanelCreation = True\<rparr>]))"
    unfolding c0 by (rule sent_performAnalysis)
  have c2: "timers ?c = [(h, dl)]" and c3: "clock ?c < dl"
    using assms by (simp_all only: step_command_frame)
  have c5: "sent (advance (dl - clock w) ?c) = sent ?c @
             (case activeTextEditor w of
                None \<Rightarrow> []
              | Some doc \<Rightarrow>
                  (case backendLanguage (languageId doc) of
                     None \<Rightarrow> []
                   | Some l \<Rightarrow> [\<lparr>body = \<lparr>code = getText doc, language = l\<rparr>,
                                  sentAt = dl, forcePanelCreation = False\<rparr>]))"
    using advance_fires_pending [OF c2 c3] by (simp only: step_command_frame)
  have f2: "timers ?f = [(h, dl)]" and f3: "clock ?f < dl"
    using assms by (simp_all only: step_focus_frame)
  have f5: "sent (advance (dl - clock w) ?f) = sent ?f @
             (case e of
                None \<Rightarrow> []
              | Some doc \<Rightarrow>
                  (case backendLanguage (languageId doc) of
                     None \<Rightarrow> []
                   | Some l \<Rightarrow> [\<lparr>body = \<lparr>code = getText doc, language = l\<rparr>,
                                  sentAt = dl, forcePanelCreation = False\<rparr>]))"
    using advance_fires_pending [OF f2 f3] by (simp only: step_focus_frame)
  from c1 c2 c5 sent_step_focus [of e w] f2 f5 show ?thesis by blast
qed

text \<open>The statement of claim C2 at sample inputs, with and without an active editor.\<close>

theorem immediate_attempt_keeps_debounce_timer_witness:
  "timers timerPending = [(0, 500)] \<and> clock timerPending < 500
   \<and> sent (step Command timerPending) =
        [\<lparr>body = \<lparr>code = ''def g(): pass'', language = ''python''\<rparr>, sentAt = 0,
          forcePanelCreation = True\<rparr>]
   \<and> timers (step Command timerPending) = [(0, 500)]
   \<and> sent (advance 500 (step (DidChangeActiveTextEditor (Some tsDoc)) timerPending)) =
        [\<lparr>body = \<lparr>code = ''let x = 1;'', language = ''javascript''\<rparr>, sentAt = 0,
          forcePanelCreation = False\<rparr>,
         \<lparr>body = \<lparr>code = ''let x = 1;'', language = ''javascript''\<rparr>, sentAt = 500,
          forcePanelCreation = False\<rparr>]
   \<and> timers editorClosed = [(0, 500)] \<and> clock editorClosed < 500
   \<and> activeTextEditor editorClosed = None
   \<and> sent (step Command editorClosed) = []
   \<and> timers (step Command editorClosed) = [(0, 500)]
   \<and> sent (advance 500 (step Command editorClosed)) = []
   \<and> timers (step (DidChangeActiveTextEditor (Some rbDoc)) editorClosed) = [(0, 500)]
   \<and> sent (advance 500 (step (DidChangeActiveTextEditor (Some rbDoc)) editorClosed)) = []"
proof -
  have a: "timers timerPending = [(0, 500)]" and b: "clock timerPending < 500"
    and c: "activeTextEditor timerPending = Some (pyDoc\<lparr>getText := ''def g(): pass''\<rparr>)"
    and d: "backendLanguage (languageId pyDoc) = Some ''python''"
    and e: "backendLanguage (languageId tsDoc) = Some ''javascript''"
      "getText tsDoc = ''let x = 1;''"
    and r: "backendLanguage (languageId rbDoc) = None"
    and s: "sent timerPending = []" and k: "clock timerPending = 0"
    by (simp_all add: sample_defs model_defs)
  have a': "timers editorClosed = [(0, 500)]" and b': "clock editorClosed < 500"
    and c': "activeTextEditor editorClosed = None"
    and s': "sent editorClosed = []" and k': "clock editorClosed = 0"
    by (simp_all add: sample_defs model_defs)
  note t1 = immediate_attempt_keeps_debounce_timer [OF a b, of "Some tsDoc"]
  note t2 = immediate_attempt_keeps_debounce_timer [OF a' b', of "Some rbDoc"]
  have "sent (step Command timerPending) =
        [\<lparr>body = \<lparr>code = ''def g(): pass'', language = ''python''\<rparr>, sentAt = 0,
          forcePanelCreation = True\<rparr>]"
    using t1 by (simp add: c d s k del: step.simps)
  moreover have "timers (step Command timerPending) = [(0, 500)]"
    using t1 by blast
  moreover have "sent (advance 500 (step (DidChangeActiveTextEditor (Some tsDoc)) timerPending)) =
        [\<lparr>body = \<lparr>code = ''let x = 1;'', language = ''javascript''\<rparr>, sentAt = 0,
          forcePanelCreation = False\<rparr>,
         \<lparr>body = \<lparr>code = ''let x = 1;'', language = ''javascript''\<rparr>, sentAt = 500,
          forcePanelCreation = False\<rparr>]"
    using t1 by (simp add: e s k del: step.simps)
  moreover have "sent (step Command editorClosed) = []"
    using t2 by (simp add: c' s' del: step.simps)
  moreover have "timers (step Command editorClosed) = [(0, 500)]"
    using t2 by blast
  moreover have "sent (advance 500 (step Command editorClosed)) = []"
    using t2 by (simp add: c' s' k' del: step.simps)
  moreover have "timers (step (DidChangeActiveTextEditor (Some rbDoc)) editorClosed) = [(0, 500)]"
    using t2 by blast
  moreover have "sent (advance 500 (step (DidChangeActiveTextEditor (Some rbDoc)) editorClosed)) = []"
    using t2 by (simp add: r s' k' del: step.simps)
  ultimately show ?thesis using a b a' b' c' by blast
qed

subsection \<open>C3\<close>

text \<open>
  Claim C3: a burst of edits of the active document of a supported language, the first
  arriving in state \<open>w\<close> and each further one less than \<open>D = 500\<close> ms after the one before,
  with no other event, issues nothing until \<open>D\<close> ms after the last edit, and then exactly
  one background request, sent at that moment, carrying the text of the last edit. The
  hypothesis \<open>timer_inv\<close> holds in every state reached from activation
  (\<open>timer_inv_run\<close>, \<open>timer_inv_activate\<close>).
\<close>

theorem burst_yields_one_background_request:
  assumes "timer_inv w" and "activeTextEditor w = Some doc"
    and "backendLanguage (languageId doc) = Some l"
    and "list_all (\<lambda>(gap, t). gap < DEBOUNCE_DELAY_MS) es"
  shows "DEBOUNCE_DELAY_MS = 500
       \<and> sent (advance k (run (step (edit doc t0) w) (burst doc es))) =
           sent w @ (if k < DEBOUNCE_DELAY_MS then []
                     else [\<lparr>body = \<lparr>code = last (t0 # map snd es), language = l\<rparr>,
                            sentAt = clock w + sum_list (map fst es) + DEBOUNCE_DELAY_MS,
                            forcePanelCreation = False\<rparr>])"
proof -
  let ?w = "run (step (edit doc t0) w) (burst doc es)"
  have rel: "languageId doc \<in> set relevantLanguages"
    using assms(3) by (simp add: backendLanguage_relevant)
  note w' = burst_arms [OF assms(1,2) refl rel assms(4), of t0]
  show ?thesis
  proof (cases "k < DEBOUNCE_DELAY_MS")
    case True
    then have "advance k ?w = ?w\<lparr>clock := clock ?w + k\<rparr>"
      by (intro advance_none_due) (simp add: w')
    then show ?thesis using True by (simp add: w' DEBOUNCE_DELAY_MS_def)
  next
    case False
    have "sent (advance k ?w) =
          sent (performAnalysis False
            (?w\<lparr>clock := max (clock ?w) (clock w + sum_list (map fst es) + DEBOUNCE_DELAY_MS),
                timers := []\<rparr>))"
      using False by (intro advance_to_deadline(1)) (simp_all add: w')
    then show ?thesis
      using False assms(3) by (simp add: w' sent_performAnalysis DEBOUNCE_DELAY_MS_def)
  qed
qed

text \<open>The statement of claim C3 at sample inputs.\<close>

theorem burst_yields_one_background_request_witness:
  "timer_inv (activate (Some pyDoc))
   \<and> activeTextEditor (activate (Some pyDoc)) = Some pyDoc
   \<and> list_all (\<lambda>(gap, t). gap < DEBOUNCE_DELAY_MS) [(100, ''ab''), (499, ''abc'')]
   \<and> sent (advance 499 (run (step (edit pyDoc ''a'') (activate (Some pyDoc)))
              (burst pyDoc [(100, ''ab''), (499, ''abc'')]))) = []
   \<and> sent (advance 500 (run (step (edit pyDoc ''a'') (activate (Some pyDoc)))
              (burst pyDoc [(100, ''ab''), (499, ''abc'')]))) =
        [\<lparr>body = \<lparr>code = ''abc'', language = ''python''\<rparr>, sentAt = 1099,
          forcePanelCreation = False\<rparr>]"
proof -
  have a: "timer_inv (activate (Some pyDoc))"
    by (rule timer_inv_activate)
  have b: "activeTextEditor (activate (Some pyDoc)) = Some pyDoc"
    and s: "sent (activate (Some pyDoc)) = []" and k: "clock (activate (Some pyDoc)) = 0"
    by (simp_all add: activate_def)
  have c: "backendLanguage (languageId pyDoc) = Some ''python''"
    by (simp add: pyDoc_def backendLanguage_def)
  have d: "list_all (\<lambda>(gap, t). gap < DEBOUNCE_DELAY_MS) [(100, ''ab''), (499, ''abc'')]"
    by (simp add: DEBOUNCE_DELAY_MS_def)
  have "sent (advance 499 (run (step (edit pyDoc ''a'') (activate (Some pyDoc)))
              (burst pyDoc [(100, ''ab''), (499, ''abc'')]))) = []"
    using burst_yields_one_background_request [OF a b c d, of 499 "''a''"] by (simp add: s DEBOUNCE_DELAY_MS_def)
  moreover have "sent (advance 500 (run (step (edit pyDoc ''a'') (activate (Some pyDoc)))
              (burst pyDoc [(100, ''ab''), (499, ''abc'')]))) =
        [\<lparr>body = \<lparr>code = ''abc'', language = ''python''\<rparr>, sentAt = 1099,
          forcePanelCreation = False\<rparr>]"
    using burst_yields_one_background_request [OF a b c d, of 500 "''a''"] by (simp add: s k DEBOUNCE_DELAY_MS_def)
  ultimately show ?thesis using a b d by blast
qed

subsection \<open>C4\<close>

text \<open>
  Claim C4: while a panel is open, any number of successful command-triggered analyses in a
  row keep \<^verbatim>\<open>currentPanel\<close> on the same handle, create no panel, and post each result to
  that panel in order; and in every run of the extension from its activation at most one
  panel is alive. (In such a run an open panel's handle is always within \<open>panels\<close>:
  \<open>panel_inv_run\<close>.)
\<close>

theorem manual_success_reuses_open_panel:
  assumes "currentPanel w = Some p" and "p < length (panels w)"
  shows "currentPanel (fold (\<lambda>r. performAnalysis_resume True (Ok (Parsed r))) rs w) = Some p
       \<and> length (panels (fold (\<lambda>r. performAnalysis_resume True (Ok (Parsed r))) rs w))
           = length (panels w)
       \<and> posted (panels (fold (\<lambda>r. performAnalysis_resume True (Ok (Parsed r))) rs w) ! p)
           = posted (panels w ! p) @ rs
       \<and> length (livePanels (run (activate e) evs)) \<le> 1"
  using manual_successes_with_panel [OF assms, of rs]
    panel_inv_livePanels [OF panel_inv_run [OF panel_inv_activate], of e evs]
  by simp

text \<open>The statement of claim C4 at sample inputs.\<close>

theorem manual_success_reuses_open_panel_witness:
  "currentPanel panelOpen = Some 0 \<and> 0 < length (panels panelOpen)
   \<and> length (panels (fold (\<lambda>r. performAnalysis_resume True (Ok (Parsed r)))
                 [oneMethod, oneMethod] panelOpen)) = 1
   \<and> posted (panels (fold (\<lambda>r. performAnalysis_resume True (Ok (Parsed r)))
                 [oneMethod, oneMethod] panelOpen) ! 0) = [oneMethod, oneMethod, oneMethod]"
proof -
  have a: "currentPanel panelOpen = Some 0" and b: "0 < length (panels panelOpen)"
    and c: "length (panels panelOpen) = 1" and d: "posted (panels panelOpen ! 0) = [oneMethod]"
    by (simp_all add: sample_defs model_defs)
  show ?thesis
    using a b manual_success_reuses_open_panel [OF a b, of "[oneMethod, oneMethod]"] by (simp add: c d)
qed

subsection \<open>C5\<close>

text \<open>
  Claim C5: a successful background analysis that finds no panel changes nothing at all: no
  panel is created, no message is posted, \<^verbatim>\<open>currentPanel\<close> stays undefined.
\<close>

theorem background_success_never_creates_panel:
  assumes "currentPanel w = None"
  shows "performAnalysis_resume False (Ok (Parsed r)) w = w"
  using assms by (simp add: performAnalysis_resume_def updateOrCreatePanel_def)

text \<open>The statement of claim C5 at sample inputs.\<close>

theorem background_success_never_creates_panel_witness:
  "currentPanel timerPending = None
   \<and> performAnalysis_resume False (Ok (Parsed oneMethod)) timerPending = timerPending"
proof -
  have a: "currentPanel timerPending = None"
    by (simp add: sample_defs model_defs)
  show ?thesis using a background_success_never_creates_panel [OF a] by simp
qed

subsection \<open>C6\<close>

text \<open>
  Claim C6: when the user closes the open panel, the disposal hook clears
  \<^verbatim>\<open>currentPanel\<close>; from there a successful background analysis changes nothing, and a
  successful command-triggered analysis creates a fresh panel, stores its handle and posts
  the result to it.
\<close>

theorem closed_panel_recreated_only_by_command:
  assumes "currentPanel w = Some p" and "livePanel p w"
  shows "currentPanel (step (PanelClosed p) w) = None
       \<and> performAnalysis_resume False (Ok (Parsed r)) (step (PanelClosed p) w)
           = step (PanelClosed p) w
       \<and> currentPanel (performAnalysis_resume True (Ok (Parsed r)) (step (PanelClosed p) w))
           = Some (length (panels w))
       \<and> panels (performAnalysis_resume True (Ok (Parsed r)) (step (PanelClosed p) w))
           = panels (step (PanelClosed p) w) @
               [\<lparr>html = WebviewContent, visible = True, disposed = False, posted = [r]\<rparr>]"
proof -
  let ?w = "step (PanelClosed p) w"
  have closed: "currentPanel ?w = None" and len: "length (panels ?w) = length (panels w)"
    using assms(2) by (simp_all add: onDidDispose_def)
  have "performAnalysis_resume False (Ok (Parsed r)) ?w = ?w"
    using closed by (simp add: performAnalysis_resume_def updateOrCreatePanel_def)
  moreover have "currentPanel (performAnalysis_resume True (Ok (Parsed r)) ?w)
       = Some (length (panels w))"
    using closed len
    by (simp add: performAnalysis_resume_def updateOrCreatePanel_def createWebviewPanel_def
        setHtml_def postMessage_def)
  moreover have "panels (performAnalysis_resume True (Ok (Parsed r)) ?w)
       = panels ?w @ [\<lparr>html = WebviewContent, visible = True, disposed = False, posted = [r]\<rparr>]"
    using closed
    by (simp add: performAnalysis_resume_def updateOrCreatePanel_def createWebviewPanel_def
        setHtml_def postMessage_def)
  ultimately show ?thesis using closed by blast
qed

text \<open>The statement of claim C6 at sample inputs.\<close>

theorem closed_panel_recreated_only_by_command_witness:
  "currentPanel panelOpen = Some 0 \<and> livePanel 0 panelOpen
   \<and> currentPanel (step (PanelClosed 0) panelOpen) = None
   \<and> panels (performAnalysis_resume False (Ok (Parsed oneMethod)) (step (PanelClosed 0) panelOpen))
       = [\<lparr>html = WebviewContent, visible = False, disposed = True, posted = [oneMethod]\<rparr>]
   \<and> currentPanel (performAnalysis_resume True (Ok (Parsed oneMethod))
        (step (PanelClosed 0) panelOpen)) = Some 1
   \<and> panels (performAnalysis_resume True (Ok (Parsed oneMethod)) (step (PanelClosed 0) panelOpen))
       = [\<lparr>html = WebviewContent, visible = False, disposed = True, posted = [oneMethod]\<rparr>,
          \<lparr>html = WebviewContent, visible = True, disposed = False, posted = [oneMethod]\<rparr>]"
proof -
  have a: "currentPanel panelOpen = Some 0" and b: "livePanel 0 panelOpen"
    and c: "panels (step (PanelClosed 0) panelOpen)
       = [\<lparr>html = WebviewContent, visible = False, disposed = True, posted = [oneMethod]\<rparr>]"
    and d: "length (panels panelOpen) = 1"
    by (simp_all add: sample_defs model_defs)
  note t = closed_panel_recreated_only_by_command [OF a b, of oneMethod]
  have "performAnalysis_resume False (Ok (Parsed oneMethod)) (step (PanelClosed 0) panelOpen)
       = step (PanelClosed 0) panelOpen"
    using t by blast
  then have e: "panels (performAnalysis_resume False (Ok (Parsed oneMethod))
       (step (PanelClosed 0) panelOpen))
       = [\<lparr>html = WebviewContent, visible = False, disposed = True, posted = [oneMethod]\<rparr>]"
    by (simp only: c)
  have "currentPanel (performAnalysis_resume True (Ok (Parsed oneMethod))
        (step (PanelClosed 0) panelOpen)) = Some (length (panels panelOpen))"
    using t by blast
  then have f: "currentPanel (performAnalysis_resume True (Ok (Parsed oneMethod))
        (step (PanelClosed 0) panelOpen)) = Some 1"
    by (simp only: d)
  have "panels (performAnalysis_resume True (Ok (Parsed oneMethod)) (step (PanelClosed 0) panelOpen))
       = panels (step (PanelClosed 0) panelOpen) @
           [\<lparr>html = WebviewContent, visible = True, disposed = False, posted = [oneMethod]\<rparr>]"
    using t by blast
  then have g: "panels (performAnalysis_resume True (Ok (Parsed oneMethod))
       (step (PanelClosed 0) panelOpen))
       = [\<lparr>html = WebviewContent, visible = False, disposed = True, posted = [oneMethod]\<rparr>,
          \<lparr>html = WebviewContent, visible = True, disposed = False, posted = [oneMethod]\<rparr>]"
    by (simp only: c append.simps)
  from t have "currentPanel (step (PanelClosed 0) panelOpen) = None" by blast
  with a b e f g show ?thesis by blast
qed

subsection \<open>C7\<close>

text \<open>
  Claim C7: the request issued for the active document carries the backend language given by
  the fixed mapping (typescript and javascript to javascript, java to java, python to
  python); for any other tag no request is issued.
\<close>

theorem backend_language_mapping:
  assumes "activeTextEditor w = Some doc"
  shows "sent (performAnalysis force w) =
         sent w @ map (\<lambda>l. \<lparr>body = \<lparr>code = getText doc, language = l\<rparr>, sentAt = clock w,
                              forcePanelCreation = force\<rparr>)
                   (if languageId doc = ''typescript'' \<or> languageId doc = ''javascript''
                    then [''javascript'']
                    else if languageId doc = ''java'' then [''java'']
                    else if languageId doc = ''python'' then [''python'']
                    else [])"
  using assms
  by (simp add: performAnalysis_def backendLanguage_def fetch_def notify_def consoleWrite_def)

text \<open>The statement of claim C7 at sample inputs.\<close>

theorem backend_language_mapping_witness:
  "activeTextEditor (activate (Some tsDoc)) = Some tsDoc
   \<and> sent (performAnalysis False (activate (Some tsDoc))) =
       [\<lparr>body = \<lparr>code = ''let x = 1;'', language = ''javascript''\<rparr>, sentAt = 0,
         forcePanelCreation = False\<rparr>]
   \<and> activeTextEditor (activate (Some rbDoc)) = Some rbDoc
   \<and> sent (performAnalysis True (activate (Some rbDoc))) = []"
proof -
  have a: "activeTextEditor (activate (Some tsDoc)) = Some tsDoc"
    and b: "activeTextEditor (activate (Some rbDoc)) = Some rbDoc"
    by (simp_all add: activate_def)
  show ?thesis
    using a b backend_language_mapping [OF a, of False] backend_language_mapping [OF b, of True]
    by (simp add: tsDoc_def rbDoc_def activate_def)
qed

subsection \<open>C8\<close>

text \<open>
  Claim C8: an attempt on a document whose language is not supported sends no request and
  leaves the panel and \<^verbatim>\<open>currentPanel\<close> as they are; it shows exactly one "unsupported
  language" error notice when the command triggered it, and nothing otherwise.
\<close>

theorem unsupported_language_dropped:
  assumes "activeTextEditor w = Some doc"
    and "languageId doc \<notin> {''typescript'', ''javascript'', ''java'', ''python''}"
  shows "sent (performAnalysis force w) = sent w
       \<and> currentPanel (performAnalysis force w) = currentPanel w
       \<and> panels (performAnalysis force w) = panels w
       \<and> console (performAnalysis force w) = console w
       \<and> notices (performAnalysis force w) =
           notices w @ (if force
                        then [ErrorMessage (''Unsupported language in VS Code for analysis: '' @
                                languageId doc @ ''. Supported: Java, JavaScript, Python.'')]
                        else [])"
  using assms
  by (simp add: performAnalysis_def backendLanguage_def notify_def)

text \<open>The statement of claim C8 at sample inputs.\<close>

theorem unsupported_language_dropped_witness:
  "activeTextEditor (activate (Some rbDoc)) = Some rbDoc
   \<and> languageId rbDoc \<notin> {''typescript'', ''javascript'', ''java'', ''python''}
   \<and> sent (performAnalysis True (activate (Some rbDoc))) = []
   \<and> currentPanel (performAnalysis True (activate (Some rbDoc))) = None
   \<and> notices (performAnalysis True (activate (Some rbDoc))) =
       [ErrorMessage
         ''Unsupported language in VS Code for analysis: ruby. Supported: Java, JavaScript, Python.'']
   \<and> notices (performAnalysis False (activate (Some rbDoc))) = []"
proof -
  have a: "activeTextEditor (activate (Some rbDoc)) = Some rbDoc"
    by (simp add: activate_def)
  have b: "languageId rbDoc \<notin> {''typescript'', ''javascript'', ''java'', ''python''}"
    by (simp add: rbDoc_def)
  show ?thesis
    using a b unsupported_language_dropped [OF a b, of True] unsupported_language_dropped [OF a b, of False]
    by (simp add: rbDoc_def activate_def)
qed

subsection \<open>C9\<close>

text \<open>
  Claim C9: a failed attempt (rejected call, non-success status, unreadable body), whatever
  its trigger, leaves \<^verbatim>\<open>currentPanel\<close> and every panel exactly as they were, messages
  included.
\<close>

theorem failure_leaves_panel_untouched:
  assumes "failed outcome"
  shows "currentPanel (step (FetchSettled i outcome) w) = currentPanel w
       \<and> panels (step (FetchSettled i outcome) w) = panels w
       \<and> currentPanel (performAnalysis_resume force outcome w) = currentPanel w
       \<and> panels (performAnalysis_resume force outcome w) = panels w"
proof -
  have "currentPanel (performAnalysis_resume f outcome v) = currentPanel v
      \<and> panels (performAnalysis_resume f outcome v) = panels v" for f v
    using assms
    by (cases outcome rule: failed.cases)
      (simp_all add: performAnalysis_resume_def notify_def split: parsed.splits)
  then show ?thesis by simp
qed

text \<open>The statement of claim C9 at sample inputs.\<close>

theorem failure_leaves_panel_untouched_witness:
  "failed (Rejected ''ECONNREFUSED'')
   \<and> failed (NotOk ''Bad Request'' (Parsed None))
   \<and> currentPanel (step (FetchSettled 1 (Rejected ''ECONNREFUSED'')) typingWithPanel) = Some 0
   \<and> panels (step (FetchSettled 1 (NotOk ''Bad Request'' (Parsed None))) typingWithPanel)
       = [\<lparr>html = WebviewContent, visible = True, disposed = False, posted = [oneMethod]\<rparr>]
   \<and> currentPanel (performAnalysis_resume True (Rejected ''ECONNREFUSED'') (activate None)) = None
   \<and> panels (performAnalysis_resume True (Rejected ''ECONNREFUSED'') (activate None)) = []"
proof -
  have a: "failed (Rejected ''ECONNREFUSED'')" and b: "failed (NotOk ''Bad Request'' (Parsed None))"
    by simp_all
  have c: "currentPanel typingWithPanel = Some 0"
    and d: "panels typingWithPanel
       = [\<lparr>html = WebviewContent, visible = True, disposed = False, posted = [oneMethod]\<rparr>]"
    and e: "currentPanel (activate None) = None" "panels (activate None) = []"
    by (simp_all add: sample_defs model_defs)
  show ?thesis
    using a b failure_leaves_panel_untouched [OF a, of 1 typingWithPanel True] failure_leaves_panel_untouched [OF b, of 1 typingWithPanel True]
      failure_leaves_panel_untouched [OF a, of 1 "activate None" True]
    by (simp add: c d e)
qed

subsection \<open>C10\<close>

text \<open>
  Claim C10: every attempt, whatever started it and in whatever state, takes the text and
  the language from the editor that is active when it runs: the command, a focus change
  (which analyses the newly focused editor) and an expiring debounce timer alike; none is
  handed a document. With no active editor no request is sent. A notice is shown only when
  the command started the attempt (with no editor: the "no active editor" notice); a focus
  change and a timer show none. In particular a debounce timer that expires after the focus
  has moved analyses the newly focused document, or nothing when no editor is active.
\<close>

theorem attempt_samples_active_editor:
  "sent (performAnalysis force w) =
     sent w @ (case activeTextEditor w of
                 None \<Rightarrow> []
               | Some doc \<Rightarrow>
                   (case backendLanguage (languageId doc) of
                      None \<Rightarrow> []
                    | Some l \<Rightarrow> [\<lparr>body = \<lparr>code = getText doc, language = l\<rparr>,
                                   sentAt = clock w, forcePanelCreation = force\<rparr>]))
   \<and> notices (performAnalysis force w) =
       notices w @
         (if force
          then [case activeTextEditor w of
                  None \<Rightarrow> InformationMessage ''No active editor found to analyze!''
                | Some doc \<Rightarrow>
                    (case backendLanguage (languageId doc) of
                       None \<Rightarrow>
                         ErrorMessage (''Unsupported language in VS Code for analysis: '' @
                           languageId doc @ ''. Supported: Java, JavaScript, Python.'')
                     | Some l \<Rightarrow> InformationMessage (''Analyzing '' @ l @ '' code...''))]
          else [])
   \<and> step Command w = performAnalysis True w
   \<and> sent (step (DidChangeActiveTextEditor e) w) =
       sent w @ (case e of
                   None \<Rightarrow> []
                 | Some doc \<Rightarrow>
                     (case backendLanguage (languageId doc) of
                        None \<Rightarrow> []
                      | Some l \<Rightarrow> [\<lparr>body = \<lparr>code = getText doc, language = l\<rparr>,
                                     sentAt = clock w, forcePanelCreation = False\<rparr>]))
   \<and> notices (step (DidChangeActiveTextEditor e) w) = notices w
   \<and> sent (fireTimer tm w) =
       sent w @ (case activeTextEditor w of
                   None \<Rightarrow> []
                 | Some doc \<Rightarrow>
                     (case backendLanguage (languageId doc) of
                        None \<Rightarrow> []
                      | Some l \<Rightarrow> [\<lparr>body = \<lparr>code = getText doc, language = l\<rparr>,
                                     sentAt = max (clock w) (snd tm),
                                     forcePanelCreation = False\<rparr>]))
   \<and> notices (fireTimer tm w) = notices w
   \<and> (timers w = [(h, dl)] \<longrightarrow> clock w < dl \<longrightarrow>
        sent (advance (dl - clock w) (step (DidChangeActiveTextEditor e) w)) =
          sent (step (DidChangeActiveTextEditor e) w) @
            (case e of
               None \<Rightarrow> []
             | Some doc \<Rightarrow>
                 (case backendLanguage (languageId doc) of
                    None \<Rightarrow> []
                  | Some l \<Rightarrow> [\<lparr>body = \<lparr>code = getText doc, language = l\<rparr>,
                                 sentAt = dl, forcePanelCreation = False\<rparr>]))
        \<and> notices (advance (dl - clock w) (step (DidChangeActiveTextEditor e) w)) = notices w)"
proof -
  let ?f = "step (DidChangeActiveTextEditor e) w"
  have timed: "sent (advance (dl - clock w) ?f) =
          sent ?f @
            (case e of
               None \<Rightarrow> []
             | Some doc \<Rightarrow>
                 (case backendLanguage (languageId doc) of
                    None \<Rightarrow> []
                  | Some l \<Rightarrow> [\<lparr>body = \<lparr>code = getText doc, language = l\<rparr>,
                                 sentAt = dl, forcePanelCreation = False\<rparr>]))
        \<and> notices (advance (dl - clock w) ?f) = notices w"
    if tm: "timers w = [(h, dl)]" and before: "clock w < dl"
  proof -
    have f2: "timers ?f = [(h, dl)]" and f3: "clock ?f < dl"
      and due: "dl \<le> clock ?f + (dl - clock w)"
      using tm before by (simp_all only: step_focus_frame)
    have "sent (advance (dl - clock w) ?f) =
          sent ?f @
            (case e of
               None \<Rightarrow> []
             | Some doc \<Rightarrow>
                 (case backendLanguage (languageId doc) of
                    None \<Rightarrow> []
                  | Some l \<Rightarrow> [\<lparr>body = \<lparr>code = getText doc, language = l\<rparr>,
                                 sentAt = dl, forcePanelCreation = False\<rparr>]))"
      using advance_fires_pending [OF f2 f3] by (simp only: step_focus_frame)
    moreover have "notices (advance (dl - clock w) ?f) = notices ?f"
      using f2 due by (rule advance_to_deadline(2))
    ultimately show ?thesis by (simp only: step_focus_frame)
  qed
  have cmd: "step Command w = performAnalysis True w" by (simp add: onCommand_def)
  from sent_performAnalysis [of force w] notices_performAnalysis [of force w] cmd
    sent_step_focus [of e w] step_focus_frame(4) [of e w]
    sent_fireTimer [of tm w] notices_fireTimer [of tm w] timed
  show ?thesis by blast
qed

text \<open>The statement of claim C10 at sample inputs, with and without a pending timer.\<close>

theorem attempt_samples_active_editor_witness:
  "timers timerPending = [(0, 500)] \<and> clock timerPending < 500
   \<and> sent (advance 500 (step (DidChangeActiveTextEditor (Some tsDoc)) timerPending)) =
        [\<lparr>body = \<lparr>code = ''let x = 1;'', language = ''javascript''\<rparr>, sentAt = 0,
          forcePanelCreation = False\<rparr>,
         \<lparr>body = \<lparr>code = ''let x = 1;'', language = ''javascript''\<rparr>, sentAt = 500,
          forcePanelCreation = False\<rparr>]
   \<and> sent (advance 500 (step (DidChangeActiveTextEditor None) timerPending)) = []
   \<and> notices (advance 500 (step (DidChangeActiveTextEditor None) timerPending)) = []
   \<and> timers (activate None) = []
   \<and> sent (performAnalysis True (activate None)) = []
   \<and> notices (performAnalysis True (activate None)) =
        [InformationMessage ''No active editor found to analyze!'']
   \<and> notices (performAnalysis False (activate None)) = []
   \<and> sent (step (DidChangeActiveTextEditor (Some tsDoc)) (activate (Some pyDoc))) =
        [\<lparr>body = \<lparr>code = ''let x = 1;'', language = ''javascript''\<rparr>, sentAt = 0,
          forcePanelCreation = False\<rparr>]"
proof -
  have a: "timers timerPending = [(0, 500)]" and b: "clock timerPending < 500"
    and k: "clock timerPending = 0" and n: "notices timerPending = []"
    and s: "sent timerPending = []"
    and l: "backendLanguage (languageId tsDoc) = Some ''javascript''"
      "getText tsDoc = ''let x = 1;''"
    by (simp_all add: sample_defs model_defs)
  have i: "timers (activate None) = []" "sent (activate None) = []"
    "notices (activate None) = []" "activeTextEditor (activate None) = None"
    "sent (activate (Some pyDoc)) = []" "clock (activate (Some pyDoc)) = 0"
    by (simp_all add: activate_def)
  note t1 = attempt_samples_active_editor [of True timerPending "Some tsDoc" "(0, 500)" 0 500]
  note t2 = attempt_samples_active_editor [of True timerPending None "(0, 500)" 0 500]
  note t3 = attempt_samples_active_editor [of True "activate None" None "(0, 500)" 0 500]
  note t4 = attempt_samples_active_editor [of False "activate None" None "(0, 500)" 0 500]
  note t5 = attempt_samples_active_editor [of False "activate (Some pyDoc)" "Some tsDoc" "(0, 500)" 0 500]
  have "sent (advance 500 (step (DidChangeActiveTextEditor (Some tsDoc)) timerPending)) =
        [\<lparr>body = \<lparr>code = ''let x = 1;'', language = ''javascript''\<rparr>, sentAt = 0,
          forcePanelCreation = False\<rparr>,
         \<lparr>body = \<lparr>code = ''let x = 1;'', language = ''javascript''\<rparr>, sentAt = 500,
          forcePanelCreation = False\<rparr>]"
    using t1 a b by (simp add: k s l del: step.simps)
  moreover have "sent (advance 500 (step (DidChangeActiveTextEditor None) timerPending)) = []
     \<and> notices (advance 500 (step (DidChangeActiveTextEditor None) timerPending)) = []"
    using t2 a b by (simp add: k s n del: step.simps)
  moreover have "sent (performAnalysis True (activate None)) = []
     \<and> notices (performAnalysis True (activate None)) =
        [InformationMessage ''No active editor found to analyze!'']"
    using t3 by (simp add: i del: step.simps)
  moreover have "notices (performAnalysis False (activate None)) = []"
    using t4 by (simp add: i del: step.simps)
  moreover have "sent (step (DidChangeActiveTextEditor (Some tsDoc)) (activate (Some pyDoc))) =
        [\<lparr>body = \<lparr>code = ''let x = 1;'', language = ''javascript''\<rparr>, sentAt = 0,
          forcePanelCreation = False\<rparr>]"
    using t5 by (simp add: i l del: step.simps)
  ultimately show ?thesis using a b i(1) by blast
qed

end
